theory Spec2Isabelle
  imports Main
begin

section \<open>Strings\<close>

text \<open>
  Go strings are byte sequences; \<^typ>\<open>string\<close> is a list of bytes, and equality of
  lists is the byte-wise, case-sensitive comparison of Go's \<open>==\<close> on strings.
  The functions below are the parts of the Go package \<open>strings\<close> that the framework
  calls; \<open>Trim\<close> and \<open>Split\<close> are specialised to the one-byte separator \<open>"/"\<close> that
  the router passes.
\<close>

definition HasPrefix :: "string \<Rightarrow> string \<Rightarrow> bool" where
  \<comment> \<open>\<open>strings.HasPrefix(s, prefix)\<close>\<close>
  "HasPrefix s p = (take (length p) s = p)"

fun Contains :: "string \<Rightarrow> string \<Rightarrow> bool" where
  \<comment> \<open>\<open>strings.Contains(s, substr)\<close>\<close>
  "Contains [] substr = (substr = [])"
| "Contains (x # xs) substr = (HasPrefix (x # xs) substr \<or> Contains xs substr)"

definition Trim :: "string \<Rightarrow> char \<Rightarrow> string" where
  \<comment> \<open>\<open>strings.Trim(s, "/")\<close>: every leading and every trailing separator is removed\<close>
  "Trim s c = rev (dropWhile (\<lambda>x. x = c) (rev (dropWhile (\<lambda>x. x = c) s)))"

fun Split :: "string \<Rightarrow> char \<Rightarrow> string list" where
  \<comment> \<open>\<open>strings.Split(s, "/")\<close>: one more piece than there are separators, so the
      empty string gives the single piece \<open>""\<close>\<close>
  "Split [] c = [[]]"
| "Split (x # xs) c =
     (if x = c then [] # Split xs c
      else (case Split xs c of [] \<Rightarrow> [[x]] | w # ws \<Rightarrow> (x # w) # ws))"

section \<open>Route table\<close>

text \<open>
  \<open>route\<close>, \<open>paramRoute\<close> and \<open>Router\<close> of the router file. The handler type \<open>'h\<close>
  and the type \<open>'ms\<close> of the middleware slice are left open here: the router stores and
  returns them without looking inside. A Go map is a partial function; \<open>paramRoutes\<close>
  read at a missing method gives the nil slice, which \<open>paramRoutesOf\<close> writes out.
\<close>

record ('h, 'ms) route =
  handler :: 'h
  middlewares :: 'ms

record ('h, 'ms) paramRoute =
  pathParts :: "string list"
  route :: "('h, 'ms) route"

record ('h, 'ms) Router =
  staticRoutes :: "string \<rightharpoonup> (string \<rightharpoonup> ('h, 'ms) route)"
  paramRoutes :: "string \<rightharpoonup> ('h, 'ms) paramRoute list"

definition NewRouter :: "('h, 'ms) Router" where
  "NewRouter = \<lparr>staticRoutes = Map.empty, paramRoutes = Map.empty\<rparr>"

definition paramRoutesOf :: "('h, 'ms) Router \<Rightarrow> string \<Rightarrow> ('h, 'ms) paramRoute list" where
  "paramRoutesOf r method = (case paramRoutes r method of None \<Rightarrow> [] | Some prs \<Rightarrow> prs)"

definition hasParams :: "string \<Rightarrow> bool" where
  "hasParams path = Contains path '':''"

definition addWithMiddleware ::
  "string \<Rightarrow> string \<Rightarrow> 'h \<Rightarrow> 'ms \<Rightarrow> ('h, 'ms) Router \<Rightarrow> ('h, 'ms) Router" where
  "addWithMiddleware method path h ms r =
     (let rt = \<lparr>handler = h, middlewares = ms\<rparr> in
      if \<not> hasParams path then
        (let m = (case staticRoutes r method of None \<Rightarrow> Map.empty | Some m \<Rightarrow> m)
         in r\<lparr>staticRoutes := (staticRoutes r)(method \<mapsto> m(path \<mapsto> rt))\<rparr>)
      else
        (let parts = Split (Trim path CHR ''/'') CHR ''/''
         in r\<lparr>paramRoutes := (paramRoutes r)(method \<mapsto>
                 paramRoutesOf r method @ [\<lparr>pathParts = parts, route = rt\<rparr>])\<rparr>))"

text \<open>
  The inner loop of \<open>find\<close> walks the candidate's parts with the index \<open>i\<close> into the
  request's parts. \<open>None\<close> is the \<open>match = false; break\<close> exit. The index is in range
  because the caller has compared the two lengths.
\<close>

fun matchParts ::
  "nat \<Rightarrow> string list \<Rightarrow> string list \<Rightarrow> (string \<rightharpoonup> string) \<Rightarrow> (string \<rightharpoonup> string) option" where
  "matchParts i [] requestParts params = Some params"
| "matchParts i (part # rest) requestParts params =
     (if HasPrefix part '':'' then
        matchParts (Suc i) rest requestParts (params(drop 1 part \<mapsto> requestParts ! i))
      else if part \<noteq> requestParts ! i then None
      else matchParts (Suc i) rest requestParts params)"

fun scanParamRoutes ::
  "('h, 'ms) paramRoute list \<Rightarrow> string list \<Rightarrow>
   (('h, 'ms) route \<times> (string \<rightharpoonup> string)) option" where
  "scanParamRoutes [] requestParts = None"
| "scanParamRoutes (pr # prs) requestParts =
     (if length (pathParts pr) \<noteq> length requestParts then scanParamRoutes prs requestParts
      else (case matchParts 0 (pathParts pr) requestParts Map.empty of
              Some params \<Rightarrow> Some (route pr, params)
            | None \<Rightarrow> scanParamRoutes prs requestParts))"

definition staticLookup :: "('h, 'ms) Router \<Rightarrow> string \<Rightarrow> string \<Rightarrow> ('h, 'ms) route option" where
  "staticLookup r method path =
     (case staticRoutes r method of None \<Rightarrow> None | Some m \<Rightarrow> m path)"

text \<open>
  \<open>Router.find\<close>. The result \<open>None\<close> is the nil route; the second component of a hit
  is the parameter map, which is nil (\<open>None\<close>) for a static route.
\<close>

definition Router_find ::
  "('h, 'ms) Router \<Rightarrow> string \<Rightarrow> string \<Rightarrow>
   (('h, 'ms) route \<times> (string \<rightharpoonup> string) option) option" where
  "Router_find r method path =
     (case staticLookup r method path of
        Some rt \<Rightarrow> Some (rt, None)
      | None \<Rightarrow>
          (let requestParts = Split (Trim path CHR ''/'') CHR ''/'' in
           case scanParamRoutes (paramRoutesOf r method) requestParts of
             Some (rt, params) \<Rightarrow> Some (rt, Some params)
           | None \<Rightarrow> None))"

definition registerAll ::
  "(string \<times> string \<times> 'h \<times> 'ms) list \<Rightarrow> ('h, 'ms) Router \<Rightarrow> ('h, 'ms) Router" where
  \<comment> \<open>a registration phase: \<open>addWithMiddleware\<close> called once per entry, in list order\<close>
  "registerAll regs r = foldl (\<lambda>r (method, path, h, ms). addWithMiddleware method path h ms r) r regs"

section \<open>Errors, JSON values and the transport\<close>

text \<open>
  A Go \<open>error\<close> is identified with its message (\<open>err.Error()\<close>); the nil error is
  \<open>None\<close>. The values handed to \<open>encoding/json\<close> are taken as JSON trees (a number is
  its literal, as in \<open>json.Number\<close>); the encoder
  itself belongs to the Go library and is a parameter \<open>enc\<close> of every function that
  encodes (\<open>Encoder.Encode\<close> renders the value and issues one \<open>Write\<close>).
\<close>

type_synonym error = string

datatype json =
  JNull | JBool bool | JNumber string | JString string
  | JArray "json list" | JObject "(string \<times> json) list"

text \<open>
  The \<open>http.ResponseWriter\<close> that the host passes to the dispatcher, with the contract of
  \<open>net/http\<close> as the recorder of \<open>httptest\<close> (the one the repository's tests use)
  implements it: the first \<open>WriteHeader\<close> fixes the status code and later ones are
  ignored, a \<open>Write\<close> before any \<open>WriteHeader\<close> implies status 200, and \<open>Write\<close>
  accepts all the bytes it is given.
\<close>

record transport =
  wroteHeader :: bool
  Code :: int
  HeaderMap :: "string \<rightharpoonup> string"
  Body :: string

definition NewRecorder :: transport where
  "NewRecorder = \<lparr>wroteHeader = False, Code = 200, HeaderMap = Map.empty, Body = []\<rparr>"

definition transport_HeaderSet :: "string \<Rightarrow> string \<Rightarrow> transport \<Rightarrow> transport" where
  "transport_HeaderSet k v w = w\<lparr>HeaderMap := (HeaderMap w)(k \<mapsto> v)\<rparr>"

definition transport_WriteHeader :: "int \<Rightarrow> transport \<Rightarrow> transport" where
  "transport_WriteHeader code w =
     (if wroteHeader w then w else w\<lparr>wroteHeader := True, Code := code\<rparr>)"

definition transport_Write :: "string \<Rightarrow> transport \<Rightarrow> transport \<times> int \<times> error option" where
  "transport_Write b w =
     (let w1 = (if wroteHeader w then w else transport_WriteHeader 200 w)
      in (w1\<lparr>Body := Body w1 @ b\<rparr>, int (length b), None))"

definition http_NotFound :: "transport \<Rightarrow> transport" where
  \<comment> \<open>\<open>http.NotFound(w, r)\<close>\<close>
  "http_NotFound w =
     (let w1 = transport_HeaderSet ''Content-Type'' ''text/plain; charset=utf-8'' w;
          w2 = transport_HeaderSet ''X-Content-Type-Options'' ''nosniff'' w1;
          w3 = transport_WriteHeader 404 w2
      in fst (transport_Write (''404 page not found'' @ [CHR 0x0A]) w3))"

section \<open>Response writer wrapper\<close>

record responseWriter =
  ResponseWriter :: transport
  status :: int
  size :: int

definition newResponseWriter :: "transport \<Rightarrow> responseWriter" where
  "newResponseWriter w = \<lparr>ResponseWriter = w, status = 200, size = 0\<rparr>"

definition WriteHeader :: "int \<Rightarrow> responseWriter \<Rightarrow> responseWriter" where
  "WriteHeader code rw =
     rw\<lparr>status := code, ResponseWriter := transport_WriteHeader code (ResponseWriter rw)\<rparr>"

definition Write :: "string \<Rightarrow> responseWriter \<Rightarrow> responseWriter \<times> int \<times> error option" where
  "Write b rw =
     (case transport_Write b (ResponseWriter rw) of
        (w, n, err) \<Rightarrow> (rw\<lparr>ResponseWriter := w, size := size rw + n\<rparr>, n, err))"

section \<open>Request and Context\<close>

text \<open>
  Of \<open>http.Request\<close> the model keeps what the framework reads: the method, \<open>URL.Path\<close>,
  the parsed query (\<open>URL.Query()\<close>, every key with the list of its values, empty when
  the key is absent), the headers, and the body. A body is the bytes its reader delivers
  and the error, if any, that \<open>io.ReadAll\<close> ends with; \<open>None\<close> is the nil body.
  \<open>Values_Get\<close> is \<open>Get\<close> of \<open>url.Values\<close> and of \<open>http.Header\<close>: the first value of
  the key, or the empty string.
\<close>

record reader =
  content :: string
  readError :: "error option"

record request =
  Method :: string
  URLPath :: string
  URLQuery :: "string \<Rightarrow> string list"
  Header :: "string \<Rightarrow> string list"
  RequestBody :: "reader option"

definition Values_Get :: "(string \<Rightarrow> string list) \<Rightarrow> string \<Rightarrow> string" where
  "Values_Get vs key = (case vs key of [] \<Rightarrow> [] | v # _ \<Rightarrow> v)"

definition ReadAll :: "reader \<Rightarrow> string \<times> error option \<times> reader" where
  \<comment> \<open>\<open>io.ReadAll\<close>: the bytes, the error, and the reader left drained\<close>
  "ReadAll b = (content b, readError b, b\<lparr>content := []\<rparr>)"

text \<open>
  \<open>Context\<close>. Its \<open>engine\<close> pointer is read by \<open>Validate\<close> and \<open>HTML\<close> only and is left
  out. The Go methods take the context by pointer and mutate it; here each returns its
  result together with the context as it leaves it.
\<close>

record Context =
  Writer :: responseWriter
  Request :: request
  Params :: "(string \<rightharpoonup> string) option"
  Status :: int

type_synonym HandlerFunc = "Context \<Rightarrow> error option \<times> Context"

type_synonym Middleware = "HandlerFunc \<Rightarrow> HandlerFunc"

definition NewContext :: "responseWriter \<Rightarrow> request \<Rightarrow> Context" where
  "NewContext w r = \<lparr>Writer = w, Request = r, Params = Some Map.empty, Status = 200\<rparr>"

definition JSON :: "(json \<Rightarrow> string) \<Rightarrow> int \<Rightarrow> json \<Rightarrow> HandlerFunc" where
  \<comment> \<open>the encoder is built on \<open>c.Writer.ResponseWriter\<close>, the transport under the wrapper\<close>
  "JSON enc code v c =
     (let rw0 = Writer c;
          rw1 = rw0\<lparr>ResponseWriter :=
                  transport_HeaderSet ''Content-Type'' ''application/json'' (ResponseWriter rw0)\<rparr>;
          rw2 = WriteHeader code rw1
      in case transport_Write (enc v) (ResponseWriter rw2) of
           (w, n, err) \<Rightarrow> (err, c\<lparr>Writer := rw2\<lparr>ResponseWriter := w\<rparr>\<rparr>))"

definition Text :: "int \<Rightarrow> string \<Rightarrow> HandlerFunc" where
  "Text code s c =
     (let rw1 = WriteHeader code (Writer c)
      in case Write s rw1 of (rw2, n, err) \<Rightarrow> (err, c\<lparr>Writer := rw2\<rparr>))"

definition Param :: "string \<Rightarrow> Context \<Rightarrow> string" where
  \<comment> \<open>reading a nil map or a missing key gives the empty string\<close>
  "Param key c =
     (case Params c of None \<Rightarrow> []
      | Some m \<Rightarrow> (case m key of None \<Rightarrow> [] | Some v \<Rightarrow> v))"

definition Query :: "string \<Rightarrow> Context \<Rightarrow> string" where
  "Query key c = Values_Get (URLQuery (Request c)) key"

text \<open>
  \<open>strconv.Atoi\<close> and \<open>strconv.ParseBool\<close> belong to the Go library; the typed query
  helpers take them as the parameters \<open>atoi\<close> and \<open>parseBool\<close>, each returning the
  value and the error as the Go functions do.
\<close>

definition QueryInt :: "(string \<Rightarrow> int \<times> error option) \<Rightarrow> string \<Rightarrow> Context \<Rightarrow> int \<times> error option" where
  "QueryInt atoi key c =
     (let val = Query key c in if val = [] then (0, None) else atoi val)"

definition QueryBool ::
  "(string \<Rightarrow> bool \<times> error option) \<Rightarrow> string \<Rightarrow> Context \<Rightarrow> bool \<times> error option" where
  "QueryBool parseBool key c =
     (let val = Query key c in if val = [] then (False, None) else parseBool val)"

text \<open>
  \<open>BindJSON\<close>. \<open>json.Unmarshal\<close> is the parameter \<open>unmarshal\<close>: from the bytes and the
  target it gives the error and the target as decoding leaves it. The result is the
  error, the target and the context (whose body has been read when \<open>ReadAll\<close> ran).
\<close>

definition BindJSON ::
  "(string \<Rightarrow> 'v \<Rightarrow> error option \<times> 'v) \<Rightarrow> 'v \<Rightarrow> Context \<Rightarrow> error option \<times> 'v \<times> Context" where
  "BindJSON unmarshal v c =
     (case RequestBody (Request c) of
        None \<Rightarrow> (Some ''request body is empty'', v, c)
      | Some rd \<Rightarrow>
          (let contentType = Values_Get (Header (Request c)) ''Content-Type'' in
           if \<not> Contains contentType ''application/json'' then
             (Some ''content-type must be application/json'', v, c)
           else
             (case ReadAll rd of
                (body, err, rd1) \<Rightarrow>
                  (let c1 = c\<lparr>Request := (Request c)\<lparr>RequestBody := Some rd1\<rparr>\<rparr> in
                   case err of
                     Some e \<Rightarrow> (Some e, v, c1)
                   | None \<Rightarrow>
                       if length body = 0 then (Some ''empty json body'', v, c1)
                       else (case unmarshal body v of
                               (Some e, v1) \<Rightarrow> (Some e, v1, c1)
                             | (None, v1) \<Rightarrow> (None, v1, c1))))))"

section \<open>Middleware slices and the heap\<close>

text \<open>
  \<open>[]Middleware\<close> values are Go slices: a header (backing array, length, capacity) that
  is copied on assignment, over an array that is shared. \<open>append\<close> writes into the shared
  array when the capacity suffices and allocates a new array otherwise, so the group, the
  route and the engine each hold a \<^emph>\<open>header\<close>, and the elements live in the heap
  \<open>heap :: address \<Rightarrow> index \<Rightarrow> cell\<close>. An empty cell (\<open>None\<close>) is a nil function. The
  nil slice is the header with capacity 0.

  How much capacity a growing \<open>append\<close> allocates is decided by the Go runtime, not by
  the language or this repository: it is the parameter \<open>grow\<close> (old capacity, needed
  length) of every function that appends. \<open>growDouble\<close> is the doubling the runtime
  applies to small slices.
\<close>

record slice =
  arr :: nat
  len :: nat
  cap :: nat

definition nilSlice :: slice where
  "nilSlice = \<lparr>arr = 0, len = 0, cap = 0\<rparr>"

definition growDouble :: "nat \<Rightarrow> nat \<Rightarrow> nat" where
  "growDouble oldCap newLen = (if 2 * oldCap < newLen then newLen else 2 * oldCap)"

definition readSlice :: "(nat \<Rightarrow> nat \<Rightarrow> 'a option) \<Rightarrow> slice \<Rightarrow> 'a option list" where
  "readSlice h s = map (h (arr s)) [0..<len s]"

fun writeFrom ::
  "nat \<Rightarrow> nat \<Rightarrow> 'a option list \<Rightarrow> (nat \<Rightarrow> nat \<Rightarrow> 'a option) \<Rightarrow> (nat \<Rightarrow> nat \<Rightarrow> 'a option)" where
  "writeFrom a i [] h = h"
| "writeFrom a i (x # xs) h = writeFrom a (Suc i) xs (h(a := (h a)(i := x)))"

section \<open>Engine, groups and registration\<close>

text \<open>
  \<open>RouterGroup\<close> and \<open>Engine\<close>. A group's \<open>engine\<close> pointer is the one engine and is
  not stored. The engine record is the state that registration mutates: the router, the
  global middleware slice, the root group, the error handler, and the heap of middleware
  arrays with its next free address. (The validator, the template engine, the server and
  the dev-mode flag play no part in dispatch and are left out.) A group is a Go pointer;
  the functions that mutate it return the group as updated.
\<close>

record RouterGroup =
  prefix :: string
  groupMiddlewares :: slice

record Engine =
  router :: "(HandlerFunc, slice) Router"
  globalMiddlewares :: slice
  rootGroup :: RouterGroup
  errorHandler :: "Context \<Rightarrow> error \<Rightarrow> Context"
  heap :: "nat \<Rightarrow> nat \<Rightarrow> Middleware option"
  nextAddr :: nat

definition appendSlice ::
  "(nat \<Rightarrow> nat \<Rightarrow> nat) \<Rightarrow> slice \<Rightarrow> Middleware list \<Rightarrow> Engine \<Rightarrow> slice \<times> Engine" where
  \<comment> \<open>\<open>append(s, xs...)\<close>\<close>
  "appendSlice grow s xs e =
     (if len s + length xs \<le> cap s then
        (s\<lparr>len := len s + length xs\<rparr>,
         e\<lparr>heap := writeFrom (arr s) (len s) (map Some xs) (heap e)\<rparr>)
      else
        (let a = nextAddr e;
             h = writeFrom a 0 (readSlice (heap e) s @ map Some xs) ((heap e)(a := (\<lambda>i. None)))
         in (\<lparr>arr = a, len = len s + length xs, cap = grow (cap s) (len s + length xs)\<rparr>,
             e\<lparr>heap := h, nextAddr := Suc a\<rparr>)))"

definition makeSlice :: "nat \<Rightarrow> Engine \<Rightarrow> slice \<times> Engine" where
  \<comment> \<open>\<open>make([]Middleware, 0, c)\<close> in the program that uses the framework\<close>
  "makeSlice c e =
     (let a = nextAddr e
      in (\<lparr>arr = a, len = 0, cap = c\<rparr>, e\<lparr>heap := (heap e)(a := (\<lambda>i. None)), nextAddr := Suc a\<rparr>))"

definition variadic :: "Middleware list \<Rightarrow> Engine \<Rightarrow> slice \<times> Engine" where
  \<comment> \<open>the slice a call builds for explicit variadic arguments: nil when there are none,
      otherwise a new array that the arguments fill exactly\<close>
  "variadic xs e = appendSlice (\<lambda>c n. n) nilSlice xs e"

definition defaultErrorHandler :: "(json \<Rightarrow> string) \<Rightarrow> Context \<Rightarrow> error \<Rightarrow> Context" where
  \<comment> \<open>\<open>serverError{Error: err.Error()}\<close> is the object with the one key \<open>error\<close>\<close>
  "defaultErrorHandler enc c err = snd (JSON enc 400 (JObject [(''error'', JString err)]) c)"

definition New :: "(json \<Rightarrow> string) \<Rightarrow> Engine" where
  "New enc =
     \<lparr>router = NewRouter, globalMiddlewares = nilSlice,
      rootGroup = \<lparr>prefix = [], groupMiddlewares = nilSlice\<rparr>,
      errorHandler = defaultErrorHandler enc,
      heap = (\<lambda>a i. None), nextAddr = 1\<rparr>"

definition SetErrorHandler :: "(Context \<Rightarrow> error \<Rightarrow> Context) \<Rightarrow> Engine \<Rightarrow> Engine" where
  "SetErrorHandler h e = e\<lparr>errorHandler := h\<rparr>"

definition Engine_Use :: "(nat \<Rightarrow> nat \<Rightarrow> nat) \<Rightarrow> Middleware list \<Rightarrow> Engine \<Rightarrow> Engine" where
  "Engine_Use grow m e =
     (case appendSlice grow (globalMiddlewares e) m e of
        (s, e1) \<Rightarrow> e1\<lparr>globalMiddlewares := s\<rparr>)"

definition Engine_Group :: "string \<Rightarrow> slice \<Rightarrow> RouterGroup" where
  \<comment> \<open>the variadic slice \<open>m\<close> itself becomes the group's slice\<close>
  "Engine_Group p m = \<lparr>prefix = p, groupMiddlewares = m\<rparr>"

definition RouterGroup_Group ::
  "(nat \<Rightarrow> nat \<Rightarrow> nat) \<Rightarrow> RouterGroup \<Rightarrow> string \<Rightarrow> Middleware list \<Rightarrow> Engine \<Rightarrow> RouterGroup \<times> Engine" where
  "RouterGroup_Group grow rg p m e =
     (case appendSlice grow (groupMiddlewares rg) m e of
        (s, e1) \<Rightarrow> (\<lparr>prefix = prefix rg @ p, groupMiddlewares = s\<rparr>, e1))"

definition RouterGroup_Use ::
  "(nat \<Rightarrow> nat \<Rightarrow> nat) \<Rightarrow> RouterGroup \<Rightarrow> Middleware list \<Rightarrow> Engine \<Rightarrow> RouterGroup \<times> Engine" where
  "RouterGroup_Use grow rg m e =
     (case appendSlice grow (groupMiddlewares rg) m e of
        (s, e1) \<Rightarrow> (rg\<lparr>groupMiddlewares := s\<rparr>, e1))"

definition wrapHandlerAsMiddleware :: "HandlerFunc \<Rightarrow> Middleware" where
  "wrapHandlerAsMiddleware h = (\<lambda>next c.
     case h c of
       (Some err, c1) \<Rightarrow> (Some err, c1)
     | (None, c1) \<Rightarrow>
         (case next c1 of
            (Some err, c2) \<Rightarrow> (Some err, c2)
          | (None, c2) \<Rightarrow> (None, c2)))"

text \<open>
  \<open>addRoute\<close>. A panic is the first component of the result; the engine beside it is the
  state at the moment of the panic.
\<close>

definition addRoute ::
  "(nat \<Rightarrow> nat \<Rightarrow> nat) \<Rightarrow> string \<Rightarrow> string \<Rightarrow> slice \<Rightarrow> HandlerFunc list \<Rightarrow> Engine \<Rightarrow>
   string option \<times> Engine" where
  "addRoute grow method path mws handlers e =
     (if length handlers = 0 then (Some ''route must have at least one handler'', e)
      else
        (let final = handlers ! (length handlers - 1);
             routeHandlers = take (length handlers - 1) handlers;
             routeMiddlewares = map wrapHandlerAsMiddleware routeHandlers
         in case appendSlice grow mws routeMiddlewares e of
              (allMiddlewares, e1) \<Rightarrow>
                (None, e1\<lparr>router := addWithMiddleware method path final allMiddlewares (router e1)\<rparr>)))"

definition RouterGroup_GET ::
  "(nat \<Rightarrow> nat \<Rightarrow> nat) \<Rightarrow> RouterGroup \<Rightarrow> string \<Rightarrow> HandlerFunc list \<Rightarrow> Engine \<Rightarrow> string option \<times> Engine" where
  "RouterGroup_GET grow rg path handlers e =
     addRoute grow ''GET'' (prefix rg @ path) (groupMiddlewares rg) handlers e"

definition RouterGroup_POST ::
  "(nat \<Rightarrow> nat \<Rightarrow> nat) \<Rightarrow> RouterGroup \<Rightarrow> string \<Rightarrow> HandlerFunc list \<Rightarrow> Engine \<Rightarrow> string option \<times> Engine" where
  "RouterGroup_POST grow rg path handlers e =
     addRoute grow ''POST'' (prefix rg @ path) (groupMiddlewares rg) handlers e"

definition RouterGroup_PUT ::
  "(nat \<Rightarrow> nat \<Rightarrow> nat) \<Rightarrow> RouterGroup \<Rightarrow> string \<Rightarrow> HandlerFunc list \<Rightarrow> Engine \<Rightarrow> string option \<times> Engine" where
  "RouterGroup_PUT grow rg path handlers e =
     addRoute grow ''PUT'' (prefix rg @ path) (groupMiddlewares rg) handlers e"

definition RouterGroup_DELETE ::
  "(nat \<Rightarrow> nat \<Rightarrow> nat) \<Rightarrow> RouterGroup \<Rightarrow> string \<Rightarrow> HandlerFunc list \<Rightarrow> Engine \<Rightarrow> string option \<times> Engine" where
  "RouterGroup_DELETE grow rg path handlers e =
     addRoute grow ''DELETE'' (prefix rg @ path) (groupMiddlewares rg) handlers e"

definition Engine_GET ::
  "(nat \<Rightarrow> nat \<Rightarrow> nat) \<Rightarrow> string \<Rightarrow> HandlerFunc list \<Rightarrow> Engine \<Rightarrow> string option \<times> Engine" where
  "Engine_GET grow path handlers e = RouterGroup_GET grow (rootGroup e) path handlers e"

definition Engine_POST ::
  "(nat \<Rightarrow> nat \<Rightarrow> nat) \<Rightarrow> string \<Rightarrow> HandlerFunc list \<Rightarrow> Engine \<Rightarrow> string option \<times> Engine" where
  "Engine_POST grow path handlers e = RouterGroup_POST grow (rootGroup e) path handlers e"

definition Engine_PUT ::
  "(nat \<Rightarrow> nat \<Rightarrow> nat) \<Rightarrow> string \<Rightarrow> HandlerFunc list \<Rightarrow> Engine \<Rightarrow> string option \<times> Engine" where
  "Engine_PUT grow path handlers e = RouterGroup_PUT grow (rootGroup e) path handlers e"

definition Engine_DELETE ::
  "(nat \<Rightarrow> nat \<Rightarrow> nat) \<Rightarrow> string \<Rightarrow> HandlerFunc list \<Rightarrow> Engine \<Rightarrow> string option \<times> Engine" where
  "Engine_DELETE grow path handlers e = RouterGroup_DELETE grow (rootGroup e) path handlers e"

section \<open>Chains and dispatch\<close>

text \<open>
  Both chain loops run \<open>for i := len(ms) - 1; i >= 0; i-- { h = ms[i](h) }\<close>:
  \<open>applyMiddlewares cells n h\<close> is that loop with \<open>n = i + 1\<close> iterations left, reading
  the array \<open>cells\<close>. Calling a nil function panics; that is the result \<open>None\<close>.
\<close>

fun applyMiddlewares ::
  "(nat \<Rightarrow> Middleware option) \<Rightarrow> nat \<Rightarrow> HandlerFunc \<Rightarrow> HandlerFunc option" where
  "applyMiddlewares cells 0 h = Some h"
| "applyMiddlewares cells (Suc i) h =
     (case cells i of None \<Rightarrow> None | Some m \<Rightarrow> applyMiddlewares cells i (m h))"

definition buildChain :: "Engine \<Rightarrow> HandlerFunc \<Rightarrow> HandlerFunc option" where
  "buildChain e final =
     applyMiddlewares (heap e (arr (globalMiddlewares e))) (len (globalMiddlewares e)) final"

datatype outcome = NotFound transport | Served Context | Panicked

definition handle :: "Engine \<Rightarrow> transport \<Rightarrow> request \<Rightarrow> outcome" where
  "handle e w r =
     (let rw = newResponseWriter w;
          ctx = NewContext rw r
      in case Router_find (router e) (Method r) (URLPath r) of
           None \<Rightarrow> NotFound (http_NotFound w)
         | Some (rt, params) \<Rightarrow>
             (let ctx1 = ctx\<lparr>Params := params\<rparr> in
              case applyMiddlewares (heap e (arr (middlewares rt))) (len (middlewares rt)) (handler rt) of
                None \<Rightarrow> Panicked
              | Some h \<Rightarrow>
                  (case buildChain e h of
                     None \<Rightarrow> Panicked
                   | Some final \<Rightarrow>
                       (case final ctx1 of
                          (None, c) \<Rightarrow> Served c
                        | (Some err, c) \<Rightarrow> Served (errorHandler e c err)))))"

section \<open>Route matching as the specification words it\<close>

text \<open>
  The specification describes \<open>find\<close> by what a candidate is and what it binds, not by
  the loops. These definitions follow its words; the theorems below compare them with
  \<open>Router_find\<close>. A registration is the tuple (method, path, handler, middlewares).
\<close>

definition segmentsOf :: "string \<Rightarrow> string list" where
  \<comment> \<open>the path, trimmed of leading and trailing slashes, split on \<open>/\<close>\<close>
  "segmentsOf path = Split (Trim path CHR ''/'') CHR ''/''"

definition isCapture :: "string \<Rightarrow> bool" where
  \<comment> \<open>a segment starting with \<open>:\<close>\<close>
  "isCapture part = HasPrefix part '':''"

definition segmentsMatch :: "string list \<Rightarrow> string list \<Rightarrow> bool" where
  \<comment> \<open>same number of segments; pairwise, a capture matches anything and a literal must
      equal the request segment\<close>
  "segmentsMatch parts requestParts = list_all2 (\<lambda>p v. isCapture p \<or> p = v) parts requestParts"

definition bindings :: "string list \<Rightarrow> string list \<Rightarrow> (string \<rightharpoonup> string)" where
  \<comment> \<open>each capture's name (the segment without its \<open>:\<close>) bound to the request segment at
      the same position, in order\<close>
  "bindings parts requestParts =
     fold (\<lambda>(p, v) m. if isCapture p then m(drop 1 p \<mapsto> v) else m) (zip parts requestParts) Map.empty"



section \<open>Example programs\<close>

text \<open>
  Handlers, middleware and requests of small programs that use the framework, for
  evaluating it on concrete inputs. \<open>mark s\<close> is the middleware
  \<open>func(next) { return func(c) error { c.Writer.Write([]byte(s)); return next(c) } }\<close>,
  \<open>say s\<close> the handler that writes \<open>s\<close> and returns nil, \<open>failWith msg\<close> the handler
  \<open>return errors.New(msg)\<close>. The response body then lists what ran, in order.
  \<open>newRequest\<close> is a request without headers or query whose body is present and empty.
\<close>

definition mark :: "string \<Rightarrow> Middleware" where
  "mark s = (\<lambda>next c. case Write s (Writer c) of (rw, n, err) \<Rightarrow> next (c\<lparr>Writer := rw\<rparr>))"

definition say :: "string \<Rightarrow> HandlerFunc" where
  "say s c = (case Write s (Writer c) of (rw, n, err) \<Rightarrow> (None, c\<lparr>Writer := rw\<rparr>))"

definition failWith :: "error \<Rightarrow> HandlerFunc" where
  "failWith msg c = (Some msg, c)"

definition newRequest :: "string \<Rightarrow> string \<Rightarrow> request" where
  "newRequest method path =
     \<lparr>Method = method, URLPath = path, URLQuery = (\<lambda>k. []), Header = (\<lambda>k. []),
      RequestBody = Some \<lparr>content = [], readError = None\<rparr>\<rparr>"

text \<open>
  \<open>encodePlain\<close> is what \<open>Encoder.Encode\<close> writes for a value none of whose strings
  needs escaping (no quote, backslash, control character, \<open><\<close>, \<open>>\<close>, \<open>&\<close> or
  non-ASCII byte): the compact rendering and a newline. It instantiates the encoder
  parameter in the examples.
\<close>

fun encodeValue :: "json \<Rightarrow> string"
  and encodeElements :: "json list \<Rightarrow> string"
  and encodeMembers :: "(string \<times> json) list \<Rightarrow> string" where
  "encodeValue JNull = ''null''"
| "encodeValue (JBool b) = (if b then ''true'' else ''false'')"
| "encodeValue (JNumber n) = n"
| "encodeValue (JString s) = [CHR 0x22] @ s @ [CHR 0x22]"
| "encodeValue (JArray xs) = ''['' @ encodeElements xs @ '']''"
| "encodeValue (JObject ms) = ''{'' @ encodeMembers ms @ ''}''"
| "encodeElements [] = []"
| "encodeElements [x] = encodeValue x"
| "encodeElements (x # y # xs) = encodeValue x @ '','' @ encodeElements (y # xs)"
| "encodeMembers [] = []"
| "encodeMembers [(k, v)] = [CHR 0x22] @ k @ [CHR 0x22] @ '':'' @ encodeValue v"
| "encodeMembers ((k, v) # m # ms) =
     [CHR 0x22] @ k @ [CHR 0x22] @ '':'' @ encodeValue v @ '','' @ encodeMembers (m # ms)"

definition encodePlain :: "json \<Rightarrow> string" where
  "encodePlain v = encodeValue v @ [CHR 0x0A]"

text \<open>
  \<open>respondJSON\<close> and \<open>respondText\<close> are the handlers \<open>c.JSON(code, v); return nil\<close> and
  \<open>c.Text(code, s); return nil\<close>. \<open>response\<close> is what the client receives (status code
  and body); \<open>observed\<close> is what the dispatcher's wrapper has recorded (status and size).
  \<open>contextOf\<close> is the context the dispatcher builds for a request; \<open>postRequest\<close> and
  \<open>getQuery\<close> are requests with a Content-Type header and body, and with a query.
\<close>

definition respondJSON :: "(json \<Rightarrow> string) \<Rightarrow> int \<Rightarrow> json \<Rightarrow> HandlerFunc" where
  "respondJSON enc code v c = (None, snd (JSON enc code v c))"

definition respondText :: "int \<Rightarrow> string \<Rightarrow> HandlerFunc" where
  "respondText code s c = (None, snd (Text code s c))"

fun response :: "outcome \<Rightarrow> (int \<times> string) option" where
  "response (NotFound w) = Some (Code w, Body w)"
| "response (Served c) = Some (Code (ResponseWriter (Writer c)), Body (ResponseWriter (Writer c)))"
| "response Panicked = None"

fun observed :: "outcome \<Rightarrow> (int \<times> int) option" where
  "observed (Served c) = Some (status (Writer c), size (Writer c))"
| "observed (NotFound w) = None"
| "observed Panicked = None"

definition contextOf :: "request \<Rightarrow> Context" where
  "contextOf r = NewContext (newResponseWriter NewRecorder) r"

definition postRequest :: "string \<Rightarrow> string list \<Rightarrow> reader option \<Rightarrow> request" where
  "postRequest path contentType body =
     \<lparr>Method = ''POST'', URLPath = path, URLQuery = (\<lambda>k. []),
      Header = (\<lambda>k. if k = ''Content-Type'' then contentType else []),
      RequestBody = body\<rparr>"

definition getQuery :: "string \<Rightarrow> (string \<times> string list) list \<Rightarrow> request" where
  "getQuery path q =
     \<lparr>Method = ''GET'', URLPath = path,
      URLQuery = (\<lambda>k. case map_of q k of None \<Rightarrow> [] | Some vs \<Rightarrow> vs),
      Header = (\<lambda>k. []), RequestBody = Some \<lparr>content = [], readError = None\<rparr>\<rparr>"

text \<open>
  Instances of the library parameters for the examples. \<open>unmarshalName\<close> stands for
  \<open>json.Unmarshal\<close> into \<open>struct { Name string `json:"name"` }\<close>: it decodes a body
  of the exact form \<open>{"name":"<text>"}\<close> (text without quote or backslash) into the
  name and rejects every other body. \<open>parseBoolGo\<close> is the switch of
  \<open>strconv.ParseBool\<close> and \<open>atoiGo\<close> the decimal parse of \<open>strconv.Atoi\<close> into a
  64-bit \<open>int\<close>; their error messages quote the input as it is.
\<close>

definition unmarshalName :: "string \<Rightarrow> string \<Rightarrow> error option \<times> string" where
  \<open>unmarshalName body v =
     (let n = length body; name = take (n - 11) (drop 9 body) in
      if 11 \<le> n \<and> take 9 body = ''{"name":"'' \<and> drop (n - 2) body = ''"}'' \<and>
         CHR 0x22 \<notin> set name \<and> CHR 0x5C \<notin> set name
      then (None, name)
      else (Some ''json: cannot decode the body'', v))\<close>

definition parseBoolGo :: "string \<Rightarrow> bool \<times> error option" where
  \<open>parseBoolGo str =
     (if str \<in> set [''1'', ''t'', ''T'', ''TRUE'', ''true'', ''True''] then (True, None)
      else if str \<in> set [''0'', ''f'', ''F'', ''FALSE'', ''false'', ''False''] then (False, None)
      else (False, Some (''strconv.ParseBool: parsing "'' @ str @ ''": invalid syntax'')))\<close>

fun digitsValue :: "string \<Rightarrow> int \<Rightarrow> int option" where
  "digitsValue [] acc = Some acc"
| "digitsValue (d # ds) acc =
     (if d \<in> set ''0123456789'' then digitsValue ds (acc * 10 + (of_char d - 48)) else None)"

definition atoiGo :: "string \<Rightarrow> int \<times> error option" where
  \<open>atoiGo s =
     (let syntax = Some (''strconv.Atoi: parsing "'' @ s @ ''": invalid syntax'');
          range = Some (''strconv.Atoi: parsing "'' @ s @ ''": value out of range'');
          neg = HasPrefix s ''-'';
          ds = (if HasPrefix s ''-'' \<or> HasPrefix s ''+'' then drop 1 s else s)
      in if ds = [] then (0, syntax)
         else (case digitsValue ds 0 of
                 None \<Rightarrow> (0, syntax)
               | Some n \<Rightarrow>
                   if neg then (if 2 ^ 63 < n then (- (2 ^ 63), range) else (- n, None))
                   else (if 2 ^ 63 \<le> n then (2 ^ 63 - 1, range) else (n, None))))\<close>

text \<open>
  The programs. \<open>groupUse\<close> and \<open>groupGET\<close> are the statements \<open>api.Use(ms...)\<close> and
  \<open>api.GET(path, hs...)\<close> acting on the group variable and the engine together.

  \<open>groupProgram\<close>:
  \<^verbatim>\<open>app := mows.New(); app.Use(G); api := app.Group("/api")\<close>
  \<^verbatim>\<open>api.Use(A); api.Use(B); api.Use(C)\<close>
  \<^verbatim>\<open>api.GET("/a", p, a); api.GET("/b", q, b)\<close>

  \<open>sharedSliceProgram\<close>:
  \<^verbatim>\<open>ms := make([]mows.Middleware, 0, 1); api := app.Group("/api", ms...)\<close>
  \<^verbatim>\<open>api.GET("/a", p, a); api.GET("/b", q, b)\<close>

  \<open>userProgram\<close>: \<^verbatim>\<open>app.GET("/users/:id", func(c) error { return errors.New("user not found") })\<close>

  \<open>pingProgram\<close>: \<^verbatim>\<open>app.GET("/ping", func(c) error { c.JSON(200, map[string]string{"pong": "yes"}); return nil })\<close>

  \<open>partialProgram\<close>: \<^verbatim>\<open>app.GET("/x", one, stop)\<close>, where \<open>one\<close> writes \<open>1\<close> and returns nil and
  \<open>stop\<close> returns \<open>errors.New("stop")\<close>.
\<close>

definition groupUse ::
  "(nat \<Rightarrow> nat \<Rightarrow> nat) \<Rightarrow> Middleware list \<Rightarrow> RouterGroup \<times> Engine \<Rightarrow> RouterGroup \<times> Engine" where
  "groupUse grow ms = (\<lambda>(g, e). RouterGroup_Use grow g ms e)"

definition groupGET ::
  "(nat \<Rightarrow> nat \<Rightarrow> nat) \<Rightarrow> string \<Rightarrow> HandlerFunc list \<Rightarrow> RouterGroup \<times> Engine \<Rightarrow> RouterGroup \<times> Engine" where
  "groupGET grow path hs = (\<lambda>(g, e). (g, snd (RouterGroup_GET grow g path hs e)))"

definition groupProgram :: "(nat \<Rightarrow> nat \<Rightarrow> nat) \<Rightarrow> Engine" where
  "groupProgram grow =
     snd (groupGET grow ''/b'' [say ''q'', say ''b'']
         (groupGET grow ''/a'' [say ''p'', say ''a'']
         (groupUse grow [mark ''C'']
         (groupUse grow [mark ''B'']
         (groupUse grow [mark ''A'']
           (Engine_Group ''/api'' nilSlice, Engine_Use grow [mark ''G''] (New encodePlain)))))))"

definition sharedSliceProgram :: "(nat \<Rightarrow> nat \<Rightarrow> nat) \<Rightarrow> Engine" where
  "sharedSliceProgram grow =
     snd (groupGET grow ''/b'' [say ''q'', say ''b'']
         (groupGET grow ''/a'' [say ''p'', say ''a'']
           (case makeSlice 1 (New encodePlain) of (ms, e) \<Rightarrow> (Engine_Group ''/api'' ms, e))))"


definition pingProgram :: Engine where
  "pingProgram = snd (Engine_GET growDouble ''/ping''
       [respondJSON encodePlain 200 (JObject [(''pong'', JString ''yes'')])] (New encodePlain))"


section \<open>The route table: static routes\<close>

lemma staticLookup_add:
  "staticLookup (addWithMiddleware m p h ms r) m' p' =
     (if \<not> hasParams p \<and> m' = m \<and> p' = p then Some \<lparr>handler = h, middlewares = ms\<rparr>
      else staticLookup r m' p')"
  by (auto simp: staticLookup_def addWithMiddleware_def Let_def split: option.splits)


lemma registerAll_Nil: "registerAll [] r = r"
  by (simp add: registerAll_def)

lemma registerAll_Cons:
  "registerAll ((m, p, h, ms) # regs) r = registerAll regs (addWithMiddleware m p h ms r)"
  by (simp add: registerAll_def)

lemma registerAll_append: "registerAll (xs @ ys) r = registerAll ys (registerAll xs r)"
  by (simp add: registerAll_def)

lemma staticLookup_registerAll_other:
  "\<forall>(m, p, h, ms) \<in> set regs. \<not> (m = method \<and> p = path) \<Longrightarrow>
   staticLookup (registerAll regs r) method path = staticLookup r method path"
proof (induction regs arbitrary: r)
  case Nil
  then show ?case by (simp add: registerAll_Nil)
next
  case (Cons x regs)
  obtain m p h ms where x: "x = (m, p, h, ms)" by (cases x)
  from Cons.prems x have ne: "\<not> (m = method \<and> p = path)" by simp
  from Cons.prems have rest: "\<forall>(m, p, h, ms) \<in> set regs. \<not> (m = method \<and> p = path)" by auto
  show ?case
    using Cons.IH [OF rest] ne by (auto simp add: x registerAll_Cons staticLookup_add)
qed

text \<open>
  A route registered under a path without any \<open>:\<close> byte (what \<open>hasParams\<close> lets the
  router store as a static route) is what \<open>find\<close> returns for that method and exact
  path, with the nil parameter map, whatever was registered before it and whatever is
  registered after it, parameterized routes of the same shape included, as long as no
  later registration replaces that same method and path.
\<close>

lemma find_static_route:
  assumes "\<not> hasParams path"
    and "\<forall>(m, p, h', ms') \<in> set later. \<not> (m = method \<and> p = path)"
  shows "Router_find (registerAll (earlier @ (method, path, h, ms) # later) r) method path =
           Some (\<lparr>handler = h, middlewares = ms\<rparr>, None)"
proof -
  have "staticLookup (registerAll (earlier @ (method, path, h, ms) # later) r) method path =
          staticLookup (addWithMiddleware method path h ms (registerAll earlier r)) method path"
    using staticLookup_registerAll_other [OF assms(2)]
    by (simp add: registerAll_append registerAll_Cons)
  also have "\<dots> = Some \<lparr>handler = h, middlewares = ms\<rparr>"
    using assms(1) by (simp add: staticLookup_add)
  finally show ?thesis by (simp add: Router_find_def)
qed

lemma find_static_route_example:
  "\<not> hasParams ''/users/new'' \<and>
   Router_find (registerAll ([(''GET'', ''/users/:id'', 1::nat, ())] @ (''GET'', ''/users/new'', 2, ()) #
                   [(''GET'', ''/users/:name'', 3, ())]) NewRouter) ''GET'' ''/users/new'' =
     Some (\<lparr>handler = 2, middlewares = ()\<rparr>, None)"
proof -
  have a: "\<not> hasParams ''/users/new''" by (simp add: hasParams_def HasPrefix_def)
  have b: "\<forall>(m, p, h', ms') \<in> set [(''GET'', ''/users/:name'', 3::nat, ())]. \<not> (m = ''GET'' \<and> p = ''/users/new'')"
    by simp
  from find_static_route [OF a b, of "[(''GET'', ''/users/:id'', 1::nat, ())]" 2 "()" NewRouter] a
  show ?thesis by simp
qed

text \<open>
  Claim C1, on \<^verbatim>\<open>app.GET("/:id", h1); app.GET("/items:search", h2)\<close>. The path
  \<open>/items:search\<close> has no capture segment (no segment starts with \<open>:\<close>), so it is a
  static route; but \<open>hasParams\<close> looks for a \<open>:\<close> anywhere in the path, the route is
  stored among the parameterized ones, and \<open>find\<close> for its exact path returns the
  earlier route \<open>/:id\<close> with \<open>id\<close> bound to \<open>items:search\<close>.
\<close>

theorem static_route_with_colon_shadowed:
  "list_all (\<lambda>part. \<not> isCapture part) (segmentsOf ''/items:search'') \<and>
   hasParams ''/items:search'' \<and>
   staticLookup (registerAll [(''GET'', ''/:id'', 1::nat, ()), (''GET'', ''/items:search'', 2, ())]
       NewRouter) ''GET'' ''/items:search'' = None \<and>
   Router_find (registerAll [(''GET'', ''/:id'', 1::nat, ()), (''GET'', ''/items:search'', 2, ())]
       NewRouter) ''GET'' ''/items:search'' =
     Some (\<lparr>handler = 1, middlewares = ()\<rparr>, Some [''id'' \<mapsto> ''items:search''])"
  by (simp add: registerAll_def addWithMiddleware_def hasParams_def HasPrefix_def staticLookup_def
      NewRouter_def paramRoutesOf_def Trim_def Router_find_def segmentsOf_def isCapture_def)

section \<open>The route table: parameterized routes\<close>








text \<open>
  What the two specification-side definitions say position by position: a candidate
  matches when the segment counts agree and every literal segment equals the request's,
  and a capture's name is bound to the request segment at its position (when the same
  name is captured again further right, the later binding is the one that stays).
\<close>

lemma segmentsMatch_nth:
  "segmentsMatch parts req \<longleftrightarrow>
     length parts = length req \<and>
     (\<forall>i < length parts. isCapture (parts ! i) \<or> parts ! i = req ! i)"
  by (simp add: segmentsMatch_def list_all2_conv_all_nth)

lemma fold_bind_other:
  "\<forall>p \<in> set parts. isCapture p \<longrightarrow> drop 1 p \<noteq> k \<Longrightarrow>
   fold (\<lambda>(p, v) m. if isCapture p then m(drop 1 p \<mapsto> v) else m) (zip parts req) m k = m k"
proof (induction parts arbitrary: req m)
  case Nil
  then show ?case by simp
next
  case (Cons p ps)
  then show ?case by (cases req) auto
qed

lemma fold_bind_nth:
  "length parts = length req \<Longrightarrow> i < length parts \<Longrightarrow> isCapture (parts ! i) \<Longrightarrow>
   \<forall>j. i < j \<and> j < length parts \<and> isCapture (parts ! j) \<longrightarrow> drop 1 (parts ! j) \<noteq> drop 1 (parts ! i) \<Longrightarrow>
   fold (\<lambda>(p, v) m. if isCapture p then m(drop 1 p \<mapsto> v) else m) (zip parts req) m
     (drop 1 (parts ! i)) = Some (req ! i)"
proof (induction parts arbitrary: req m i)
  case Nil
  then show ?case by simp
next
  case (Cons p ps)
  then obtain v vs where req: "req = v # vs" by (cases req) auto
  show ?case
  proof (cases i)
    case 0
    have "\<forall>q \<in> set ps. isCapture q \<longrightarrow> drop 1 q \<noteq> drop 1 p"
    proof (intro ballI impI)
      fix q assume "q \<in> set ps" and cq: "isCapture q"
      then obtain j where j: "j < length ps" "ps ! j = q" by (auto simp: in_set_conv_nth)
      from Cons.prems(4) [rule_format, of "Suc j"] j cq 0 show "drop 1 q \<noteq> drop 1 p" by simp
    qed
    from fold_bind_other [OF this, of vs "m(drop 1 p \<mapsto> v)"] Cons.prems(3) 0 show ?thesis
      by (simp add: req)
  next
    case (Suc i')
    have later: "\<forall>j. i' < j \<and> j < length ps \<and> isCapture (ps ! j) \<longrightarrow> drop 1 (ps ! j) \<noteq> drop 1 (ps ! i')"
    proof (intro allI impI)
      fix j assume "i' < j \<and> j < length ps \<and> isCapture (ps ! j)"
      with Cons.prems(4) [rule_format, of "Suc j"] Suc show "drop 1 (ps ! j) \<noteq> drop 1 (ps ! i')" by simp
    qed
    from Cons.prems Suc req have "length ps = length vs" "i' < length ps" "isCapture (ps ! i')" by simp_all
    from Cons.IH [OF this later] show ?thesis by (simp add: req Suc)
  qed
qed

lemma bindings_nth:
  "length parts = length req \<Longrightarrow> i < length parts \<Longrightarrow> isCapture (parts ! i) \<Longrightarrow>
   \<forall>j. i < j \<and> j < length parts \<and> isCapture (parts ! j) \<longrightarrow> drop 1 (parts ! j) \<noteq> drop 1 (parts ! i) \<Longrightarrow>
   bindings parts req (drop 1 (parts ! i)) = Some (req ! i)"
  unfolding bindings_def by (rule fold_bind_nth)



section \<open>Slices: what append leaves in the heap\<close>

lemma writeFrom_apply:
  "writeFrom a i xs h a' j =
     (if a' = a \<and> i \<le> j \<and> j < i + length xs then xs ! (j - i) else h a' j)"
proof (induction xs arbitrary: i h)
  case Nil
  then show ?case by auto
next
  case (Cons x xs)
  show ?case
    unfolding writeFrom.simps Cons.IH
    by (auto simp: nth_Cons' Suc_diff_le)
qed

lemma readSlice_length: "length (readSlice h s) = len s"
  by (simp add: readSlice_def)

lemma readSlice_appendSlice:
  "readSlice (heap (snd (appendSlice grow s xs e))) (fst (appendSlice grow s xs e)) =
     readSlice (heap e) s @ map Some xs"
proof (rule nth_equalityI)
  show "length (readSlice (heap (snd (appendSlice grow s xs e))) (fst (appendSlice grow s xs e))) =
        length (readSlice (heap e) s @ map Some xs)"
    by (simp add: readSlice_length appendSlice_def Let_def)
next
  fix j
  assume "j < length (readSlice (heap (snd (appendSlice grow s xs e))) (fst (appendSlice grow s xs e)))"
  then have j: "j < len s + length xs"
    by (simp add: readSlice_length appendSlice_def Let_def split: if_splits)
  show "readSlice (heap (snd (appendSlice grow s xs e))) (fst (appendSlice grow s xs e)) ! j =
        (readSlice (heap e) s @ map Some xs) ! j"
  proof (cases "len s + length xs \<le> cap s")
    case True
    then show ?thesis using j
      by (simp add: appendSlice_def readSlice_def writeFrom_apply nth_append)
  next
    case False
    then show ?thesis using j
      by (simp add: appendSlice_def Let_def readSlice_def writeFrom_apply nth_append)
  qed
qed

lemma router_appendSlice: "router (snd (appendSlice grow s xs e)) = router e"
  by (simp add: appendSlice_def Let_def)

section \<open>Properties of groups and registration\<close>

text \<open>
  Claim C4. \<open>g.Group(q, ms...)\<close> returns a group whose prefix is \<open>g\<close>'s prefix followed
  by \<open>q\<close>, byte for byte, and whose middleware slice, read in the heap the call leaves,
  holds \<open>g\<close>'s middleware followed by \<open>ms\<close>; \<open>Group("/api").Group("/admin")\<close> has the
  prefix \<open>/api/admin\<close>.
\<close>

theorem Group_prefix_and_middlewares:
  "prefix (fst (RouterGroup_Group grow g q ms e)) = prefix g @ q \<and>
   readSlice (heap (snd (RouterGroup_Group grow g q ms e)))
       (groupMiddlewares (fst (RouterGroup_Group grow g q ms e))) =
     readSlice (heap e) (groupMiddlewares g) @ map Some ms \<and>
   prefix (fst (RouterGroup_Group grow (Engine_Group ''/api'' m0) ''/admin'' ms e)) = ''/api/admin''"
proof -
  have r: "RouterGroup_Group grow g q ms e =
             (\<lparr>prefix = prefix g @ q, groupMiddlewares = fst (appendSlice grow (groupMiddlewares g) ms e)\<rparr>,
              snd (appendSlice grow (groupMiddlewares g) ms e))" for g q
    by (simp add: RouterGroup_Group_def split: prod.splits)
  show ?thesis
    by (simp add: r readSlice_appendSlice Engine_Group_def)
qed

lemma wrapHandlerAsMiddleware_run:
  "wrapHandlerAsMiddleware h next c =
     (case h c of (Some err, c1) \<Rightarrow> (Some err, c1) | (None, c1) \<Rightarrow> next c1)"
  by (auto simp: wrapHandlerAsMiddleware_def split: prod.splits option.splits)

text \<open>
  Claim C5. Registering with a non-empty handler list never panics; it stores a route
  whose terminal handler is the last handler and whose middleware slice, read in the heap
  the registration leaves, holds the middleware passed in followed by the adapted
  handlers before the last, in order. An adapted handler runs the handler; when that
  returns an error the error is the result and \<open>next\<close> is not called, otherwise the
  result is that of \<open>next\<close> on the context the handler left.
\<close>

theorem addRoute_adapts_handlers:
  assumes "handlers \<noteq> []"
  shows "addRoute grow method path mws handlers e =
           (None, (snd (appendSlice grow mws (map wrapHandlerAsMiddleware (butlast handlers)) e))
                    \<lparr>router := addWithMiddleware method path (last handlers)
                        (fst (appendSlice grow mws (map wrapHandlerAsMiddleware (butlast handlers)) e))
                        (router e)\<rparr>) \<and>
         readSlice (heap (snd (appendSlice grow mws (map wrapHandlerAsMiddleware (butlast handlers)) e)))
             (fst (appendSlice grow mws (map wrapHandlerAsMiddleware (butlast handlers)) e)) =
           readSlice (heap e) mws @ map (\<lambda>h. Some (wrapHandlerAsMiddleware h)) (butlast handlers) \<and>
         (\<forall>h next c. wrapHandlerAsMiddleware h next c =
            (case h c of (Some err, c1) \<Rightarrow> (Some err, c1) | (None, c1) \<Rightarrow> next c1))"
proof -
  have l: "handlers ! (length handlers - Suc 0) = last handlers"
    using assms by (simp add: last_conv_nth)
  have b: "take (length handlers - Suc 0) handlers = butlast handlers"
    by (simp add: butlast_conv_take)
  show ?thesis
    using assms
    by (simp add: addRoute_def Let_def l b readSlice_appendSlice router_appendSlice
        wrapHandlerAsMiddleware_run case_prod_beta)
qed

theorem addRoute_adapts_handlers_witness:
  "fst (addRoute growDouble ''GET'' ''/a'' nilSlice [say ''p'', say ''a''] (New encodePlain)) = None \<and>
   staticLookup (router (snd (addRoute growDouble ''GET'' ''/a'' nilSlice [say ''p'', say ''a'']
       (New encodePlain)))) ''GET'' ''/a'' =
     Some \<lparr>handler = say ''a'', middlewares = \<lparr>arr = 1, len = 1, cap = 1\<rparr>\<rparr> \<and>
   readSlice (heap (snd (addRoute growDouble ''GET'' ''/a'' nilSlice [say ''p'', say ''a'']
       (New encodePlain)))) \<lparr>arr = 1, len = 1, cap = 1\<rparr> =
     [Some (wrapHandlerAsMiddleware (say ''p''))] \<and>
   wrapHandlerAsMiddleware (failWith ''stop'') (say ''a'') (contextOf (newRequest ''GET'' ''/a'')) =
     (Some ''stop'', contextOf (newRequest ''GET'' ''/a''))"
proof -
  let ?hs = "[say ''p'', say ''a'']"
  let ?A = "appendSlice growDouble nilSlice (map wrapHandlerAsMiddleware (butlast ?hs)) (New encodePlain)"
  have ne: "?hs \<noteq> []" by simp
  from addRoute_adapts_handlers [OF ne, of growDouble "''GET''" "''/a''" nilSlice "New encodePlain"]
  have eq: "addRoute growDouble ''GET'' ''/a'' nilSlice ?hs (New encodePlain) =
              (None, (snd ?A)\<lparr>router := addWithMiddleware ''GET'' ''/a'' (last ?hs) (fst ?A)
                  (router (New encodePlain))\<rparr>)"
    and rd: "readSlice (heap (snd ?A)) (fst ?A) =
               readSlice (heap (New encodePlain)) nilSlice @
               map (\<lambda>h. Some (wrapHandlerAsMiddleware h)) (butlast ?hs)"
    and w: "\<forall>h next c. wrapHandlerAsMiddleware h next c =
              (case h c of (Some err, c1) \<Rightarrow> (Some err, c1) | (None, c1) \<Rightarrow> next c1)"
    by blast+
  have 1: "fst (addRoute growDouble ''GET'' ''/a'' nilSlice ?hs (New encodePlain)) = None"
    by (simp add: eq)
  have 2: "staticLookup (router (snd (addRoute growDouble ''GET'' ''/a'' nilSlice ?hs (New encodePlain))))
             ''GET'' ''/a'' = Some \<lparr>handler = say ''a'', middlewares = \<lparr>arr = 1, len = 1, cap = 1\<rparr>\<rparr>"
    unfolding eq
    by (simp add: appendSlice_def nilSlice_def New_def growDouble_def Let_def staticLookup_add
        hasParams_def HasPrefix_def)
  have 3: "readSlice (heap (snd (addRoute growDouble ''GET'' ''/a'' nilSlice ?hs (New encodePlain))))
             \<lparr>arr = 1, len = 1, cap = 1\<rparr> = [Some (wrapHandlerAsMiddleware (say ''p''))]"
    unfolding eq
    by (simp add: appendSlice_def nilSlice_def New_def growDouble_def Let_def readSlice_def)
  have 4: "wrapHandlerAsMiddleware (failWith ''stop'') (say ''a'') (contextOf (newRequest ''GET'' ''/a'')) =
             (Some ''stop'', contextOf (newRequest ''GET'' ''/a''))"
    by (simp add: w failWith_def)
  from 1 2 3 4 show ?thesis by simp
qed

text \<open>
  Claim C10. Every registrar (\<open>addRoute\<close> and the GET, POST, PUT and DELETE methods of
  a group and of the engine) panics with "route must have at least one handler" exactly
  when the handler list is empty, and then the engine, route table included, is as it
  was.
\<close>

theorem registration_requires_handler:
  "list_all
     (\<lambda>register.
        fst (register path handlers e) =
          (if handlers = [] then Some ''route must have at least one handler'' else None) \<and>
        register path [] e = (Some ''route must have at least one handler'', e))
     [(\<lambda>p. addRoute grow m p mws),
      RouterGroup_GET grow rg, RouterGroup_POST grow rg, RouterGroup_PUT grow rg, RouterGroup_DELETE grow rg,
      Engine_GET grow, Engine_POST grow, Engine_PUT grow, Engine_DELETE grow]"
proof -
  have a: "fst (addRoute grow m' p mws' handlers e) =
             (if handlers = [] then Some ''route must have at least one handler'' else None) \<and>
           addRoute grow m' p mws' [] e = (Some ''route must have at least one handler'', e)" for m' p mws'
    by (simp add: addRoute_def Let_def case_prod_beta)
  show ?thesis
    by (simp add: a RouterGroup_GET_def RouterGroup_POST_def RouterGroup_PUT_def RouterGroup_DELETE_def
        Engine_GET_def Engine_POST_def Engine_PUT_def Engine_DELETE_def)
qed

section \<open>Composition order at dispatch\<close>

text \<open>
  The chain loop applies the slice's middleware right to left, so the first element is
  the outermost wrapper; the dispatcher wraps the route's handler in the route's slice
  and the result in the global slice.
\<close>

lemma applyMiddlewares_foldr:
  "length ms = n \<Longrightarrow> \<forall>i < n. cells i = Some (ms ! i) \<Longrightarrow>
   applyMiddlewares cells n h = Some (foldr (\<lambda>m h. m h) ms h)"
proof (induction ms arbitrary: n h rule: rev_induct)
  case Nil
  then show ?case by simp
next
  case (snoc m ms)
  then obtain k where n: "n = Suc k" and k: "length ms = k" by (cases n) auto
  have last: "cells k = Some m"
    using snoc.prems(2) n k by (auto simp: nth_append)
  have rest: "\<forall>i < k. cells i = Some (ms ! i)"
    using snoc.prems(2) n k by (auto simp: nth_append)
  show ?case
    using snoc.IH [OF k rest, of "m h"] last by (simp add: n)
qed

lemma applyMiddlewares_readSlice:
  "readSlice hp s = map Some ms \<Longrightarrow>
   applyMiddlewares (hp (arr s)) (len s) h = Some (foldr (\<lambda>m h. m h) ms h)"
proof (rule applyMiddlewares_foldr)
  assume r: "readSlice hp s = map Some ms"
  then show l: "length ms = len s"
    by (metis length_map readSlice_def length_upt diff_zero)
  show "\<forall>i < len s. hp (arr s) i = Some (ms ! i)"
  proof (intro allI impI)
    fix i assume i: "i < len s"
    then have "readSlice hp s ! i = hp (arr s) i" by (simp add: readSlice_def)
    with r i l show "hp (arr s) i = Some (ms ! i)" by simp
  qed
qed

lemma buildChain_nested:
  "readSlice (heap e) (globalMiddlewares e) = map Some ms \<Longrightarrow>
   buildChain e final = Some (foldr (\<lambda>m h. m h) ms final)"
  unfolding buildChain_def by (rule applyMiddlewares_readSlice)

lemma handle_composition:
  assumes "Router_find (router e) (Method r) (URLPath r) = Some (rt, params)"
    and "readSlice (heap e) (globalMiddlewares e) = map Some gs"
    and "readSlice (heap e) (middlewares rt) = map Some rs"
  shows "handle e w r =
           (case foldr (\<lambda>m h. m h) (gs @ rs) (handler rt)
                   ((NewContext (newResponseWriter w) r)\<lparr>Params := params\<rparr>) of
              (None, c) \<Rightarrow> Served c
            | (Some err, c) \<Rightarrow> Served (errorHandler e c err))"
  using assms(1) applyMiddlewares_readSlice [OF assms(3), of "handler rt"]
    buildChain_nested [OF assms(2), of "foldr (\<lambda>m h. m h) rs (handler rt)"]
  by (simp add: handle_def Let_def)

lemmas state_defs = groupUse_def groupGET_def New_def Engine_Use_def Engine_Group_def RouterGroup_Use_def
  RouterGroup_GET_def Engine_GET_def addRoute_def appendSlice_def makeSlice_def nilSlice_def growDouble_def
  readSlice_def addWithMiddleware_def hasParams_def HasPrefix_def NewRouter_def Router_find_def
  staticLookup_def newRequest_def Let_def

lemma mark_run: "mark s next c = next (c\<lparr>Writer := fst (Write s (Writer c))\<rparr>)"
  by (simp add: mark_def split: prod.splits)

lemma say_run: "say s c = (None, c\<lparr>Writer := fst (Write s (Writer c))\<rparr>)"
  by (simp add: say_def split: prod.splits)

lemma wrapped_say_run:
  "wrapHandlerAsMiddleware (say s) next c = next (c\<lparr>Writer := fst (Write s (Writer c))\<rparr>)"
  by (simp add: wrapHandlerAsMiddleware_run say_run)

lemma Write_transport:
  "ResponseWriter (fst (Write s rw)) =
     (if wroteHeader (ResponseWriter rw) then ResponseWriter rw
      else (ResponseWriter rw)\<lparr>wroteHeader := True, Code := 200\<rparr>)
     \<lparr>Body := Body (ResponseWriter rw) @ s\<rparr>"
  by (simp add: Write_def transport_Write_def transport_WriteHeader_def Let_def)

text \<open>
  Claim C3, on \<open>groupProgram\<close>. The group's slice has length 3 and capacity 4 when the
  two routes are registered, so both registrations append their adapted handler into the
  same cell of the same array: the request for \<open>/api/a\<close> runs the global middleware,
  the group's three, then the adapted handler \<open>q\<close> of the route \<open>/api/b\<close>, then its own
  terminal handler. Its own adapted handler \<open>p\<close> never runs.
\<close>

theorem route_middleware_overwritten:
  "response (handle (groupProgram growDouble) NewRecorder (newRequest ''GET'' ''/api/a'')) =
     Some (200, ''GABCqa'')"
proof -
  let ?e = "groupProgram growDouble"
  let ?r = "newRequest ''GET'' ''/api/a''"
  let ?rt = "\<lparr>handler = say ''a'', middlewares = \<lparr>arr = 4, len = 4, cap = 4\<rparr>\<rparr>"
  have f: "Router_find (router ?e) (Method ?r) (URLPath ?r) = Some (?rt, None)"
    by (simp add: groupProgram_def state_defs)
  have g: "readSlice (heap ?e) (globalMiddlewares ?e) = map Some [mark ''G'']"
    by (simp add: groupProgram_def state_defs)
  have m: "readSlice (heap ?e) (middlewares ?rt) =
             map Some [mark ''A'', mark ''B'', mark ''C'', wrapHandlerAsMiddleware (say ''q'')]"
    by (simp add: groupProgram_def state_defs upt_rec)
  show ?thesis
    unfolding handle_composition [OF f g m]
    by (simp add: mark_run say_run wrapped_say_run Write_transport NewContext_def newResponseWriter_def
        NewRecorder_def)
qed

text \<open>
  The same with a group slice whose spare capacity the program has made itself, for
  every growth policy; and \<open>groupProgram\<close> under a policy that never leaves spare
  capacity, where the route keeps its own adapted handler.
\<close>

lemma route_middleware_overwritten_any_growth:
  "response (handle (sharedSliceProgram grow) NewRecorder (newRequest ''GET'' ''/api/a'')) =
     Some (200, ''qa'')"
proof -
  let ?e = "sharedSliceProgram grow"
  let ?r = "newRequest ''GET'' ''/api/a''"
  let ?rt = "\<lparr>handler = say ''a'', middlewares = \<lparr>arr = 1, len = 1, cap = 1\<rparr>\<rparr>"
  have f: "Router_find (router ?e) (Method ?r) (URLPath ?r) = Some (?rt, None)"
    by (simp add: sharedSliceProgram_def state_defs)
  have g: "readSlice (heap ?e) (globalMiddlewares ?e) = map Some []"
    by (simp add: sharedSliceProgram_def state_defs)
  have m: "readSlice (heap ?e) (middlewares ?rt) = map Some [wrapHandlerAsMiddleware (say ''q'')]"
    by (simp add: sharedSliceProgram_def state_defs)
  show ?thesis
    unfolding handle_composition [OF f g m]
    by (simp add: say_run wrapped_say_run Write_transport NewContext_def newResponseWriter_def
        NewRecorder_def)
qed

lemma route_middleware_kept_exact_growth:
  "response (handle (groupProgram (\<lambda>c n. n)) NewRecorder (newRequest ''GET'' ''/api/a'')) =
     Some (200, ''GABCpa'')"
proof -
  let ?e = "groupProgram (\<lambda>c n. n)"
  let ?r = "newRequest ''GET'' ''/api/a''"
  let ?rt = "\<lparr>handler = say ''a'', middlewares = \<lparr>arr = 5, len = 4, cap = 4\<rparr>\<rparr>"
  have f: "Router_find (router ?e) (Method ?r) (URLPath ?r) = Some (?rt, None)"
    by (simp add: groupProgram_def state_defs)
  have g: "readSlice (heap ?e) (globalMiddlewares ?e) = map Some [mark ''G'']"
    by (simp add: groupProgram_def state_defs)
  have m: "readSlice (heap ?e) (middlewares ?rt) =
             map Some [mark ''A'', mark ''B'', mark ''C'', wrapHandlerAsMiddleware (say ''p'')]"
    by (simp add: groupProgram_def state_defs upt_rec)
  show ?thesis
    unfolding handle_composition [OF f g m]
    by (simp add: mark_run say_run wrapped_say_run Write_transport NewContext_def newResponseWriter_def
        NewRecorder_def)
qed

section \<open>Responses and the error handler\<close>


lemma Text_effect:
  "status (Writer (snd (Text code s c))) = code \<and>
   size (Writer (snd (Text code s c))) = size (Writer c) + int (length s) \<and>
   Body (ResponseWriter (Writer (snd (Text code s c)))) = Body (ResponseWriter (Writer c)) @ s"
  by (simp add: Text_def Let_def Write_def WriteHeader_def transport_Write_def transport_WriteHeader_def)


lemmas eval_defs = New_def Engine_Use_def Engine_Group_def RouterGroup_Use_def RouterGroup_GET_def Engine_GET_def
  addRoute_def appendSlice_def makeSlice_def nilSlice_def growDouble_def readSlice_def addWithMiddleware_def
  hasParams_def HasPrefix_def NewRouter_def handle_def Router_find_def staticLookup_def paramRoutesOf_def
  Trim_def newRequest_def newResponseWriter_def NewContext_def buildChain_def mark_def say_def failWith_def
  Write_def WriteHeader_def transport_Write_def transport_WriteHeader_def transport_HeaderSet_def
  NewRecorder_def wrapHandlerAsMiddleware_def Let_def defaultErrorHandler_def JSON_def encodePlain_def
  respondJSON_def respondText_def Text_def



text \<open>
  Claim C8, on \<open>pingProgram\<close>. The wrapper records the status passed to \<open>JSON\<close>, but
  the fifteen bytes of the body go to the transport under the wrapper and its byte count
  stays 0. (\<open>Text_effect\<close> above: through \<open>Text\<close> the count grows by the length of the
  body.)
\<close>

theorem JSON_bypasses_size_tracking:
  \<open>observed (handle pingProgram NewRecorder (newRequest ''GET'' ''/ping'')) = Some (200, 0) \<and>
   response (handle pingProgram NewRecorder (newRequest ''GET'' ''/ping'')) =
     Some (200, ''{"pong":"yes"}'' @ [CHR 0x0A])\<close>
  by (simp add: pingProgram_def eval_defs)

section \<open>Binding and query helpers\<close>

text \<open>
  Claim C7, as amended. With a body present: \<open>BindJSON\<close> succeeds with the decoded
  target when the Content-Type header contains \<open>application/json\<close>, the body is read
  without error, is not empty and \<open>json.Unmarshal\<close> decodes it; it returns the
  content-type error when the header is missing or lacks \<open>application/json\<close>; it
  returns the error "empty json body" when the content type is accepted and the body has
  zero bytes. With no body (nil) it returns "request body is empty", whatever the
  headers.
\<close>

theorem BindJSON_outcomes:
  "(\<forall>rd v1. RequestBody (Request c) = Some rd \<and>
       Contains (Values_Get (Header (Request c)) ''Content-Type'') ''application/json'' \<and>
       readError rd = None \<and> content rd \<noteq> [] \<and> unmarshal (content rd) v = (None, v1) \<longrightarrow>
       fst (BindJSON unmarshal v c) = None \<and> fst (snd (BindJSON unmarshal v c)) = v1) \<and>
   (\<forall>rd. RequestBody (Request c) = Some rd \<and>
       \<not> Contains (Values_Get (Header (Request c)) ''Content-Type'') ''application/json'' \<longrightarrow>
       fst (BindJSON unmarshal v c) = Some ''content-type must be application/json'') \<and>
   (\<forall>rd. RequestBody (Request c) = Some rd \<and>
       Contains (Values_Get (Header (Request c)) ''Content-Type'') ''application/json'' \<and>
       readError rd = None \<and> content rd = [] \<longrightarrow>
       fst (BindJSON unmarshal v c) = Some ''empty json body'') \<and>
   (RequestBody (Request c) = None \<longrightarrow>
       fst (BindJSON unmarshal v c) = Some ''request body is empty'')"
  by (auto simp: BindJSON_def ReadAll_def Let_def split: option.splits prod.splits)

theorem BindJSON_outcomes_witness:
  \<open>BindJSON unmarshalName []
      (contextOf (postRequest ''/users'' [''application/json'']
         (Some \<lparr>content = ''{"name":"mows"}'', readError = None\<rparr>))) =
     (None, ''mows'',
      contextOf (postRequest ''/users'' [''application/json''] (Some \<lparr>content = [], readError = None\<rparr>))) \<and>
   fst (BindJSON unmarshalName []
      (contextOf (postRequest ''/users'' [] (Some \<lparr>content = ''{"name":"mows"}'', readError = None\<rparr>)))) =
     Some ''content-type must be application/json'' \<and>
   fst (BindJSON unmarshalName []
      (contextOf (postRequest ''/users'' [''application/json''] (Some \<lparr>content = [], readError = None\<rparr>)))) =
     Some ''empty json body'' \<and>
   fst (BindJSON unmarshalName []
      (contextOf (postRequest ''/users'' [''application/json''] None))) =
     Some ''request body is empty''\<close>
proof -
  let ?ok = \<open>contextOf (postRequest ''/users'' [''application/json'']
         (Some \<lparr>content = ''{"name":"mows"}'', readError = None\<rparr>))\<close>
  have 1: "fst (BindJSON unmarshalName [] ?ok) = None \<and> fst (snd (BindJSON unmarshalName [] ?ok)) = ''mows''"
    using BindJSON_outcomes [of ?ok unmarshalName "[]"]
    by (simp add: contextOf_def postRequest_def NewContext_def HasPrefix_def unmarshalName_def Values_Get_def)
  have b1: "snd (snd (BindJSON unmarshalName [] ?ok)) =
       contextOf (postRequest ''/users'' [''application/json''] (Some \<lparr>content = [], readError = None\<rparr>))"
    by (simp add: BindJSON_def ReadAll_def contextOf_def postRequest_def NewContext_def HasPrefix_def
        unmarshalName_def Values_Get_def Let_def)
  let ?noct = \<open>contextOf (postRequest ''/users'' [] (Some \<lparr>content = ''{"name":"mows"}'', readError = None\<rparr>))\<close>
  have 2: "fst (BindJSON unmarshalName [] ?noct) = Some ''content-type must be application/json''"
    using BindJSON_outcomes [of ?noct unmarshalName "[]"]
    by (simp add: contextOf_def postRequest_def NewContext_def Values_Get_def)
  let ?empty = "contextOf (postRequest ''/users'' [''application/json''] (Some \<lparr>content = [], readError = None\<rparr>))"
  have 3: "fst (BindJSON unmarshalName [] ?empty) = Some ''empty json body''"
    using BindJSON_outcomes [of ?empty unmarshalName "[]"]
    by (simp add: contextOf_def postRequest_def NewContext_def Values_Get_def HasPrefix_def)
  let ?nil = "contextOf (postRequest ''/users'' [''application/json''] None)"
  have 4: "fst (BindJSON unmarshalName [] ?nil) = Some ''request body is empty''"
    using BindJSON_outcomes [of ?nil unmarshalName "[]"]
    by (simp add: contextOf_def postRequest_def NewContext_def)
  from 1 b1 2 3 4 show ?thesis
    by (metis prod.collapse)
qed

text \<open>
  A request without Content-Type header and without body gets the error
  "request body is empty", not the content-type error; and a request without
  Content-Type header whose body is present with zero bytes gets the content-type error,
  not the empty-body error.
\<close>

theorem BindJSON_nil_body_counterexample:
  "Values_Get (Header (Request (contextOf (postRequest ''/users'' [] None)))) ''Content-Type'' = [] \<and>
   fst (BindJSON unmarshalName [] (contextOf (postRequest ''/users'' [] None))) =
     Some ''request body is empty'' \<and>
   fst (BindJSON unmarshalName [] (contextOf (postRequest ''/users'' [] None))) \<noteq>
     Some ''content-type must be application/json'' \<and>
   fst (BindJSON unmarshalName []
          (contextOf (postRequest ''/users'' [] (Some \<lparr>content = [], readError = None\<rparr>)))) =
     Some ''content-type must be application/json'' \<and>
   fst (BindJSON unmarshalName []
          (contextOf (postRequest ''/users'' [] (Some \<lparr>content = [], readError = None\<rparr>)))) \<noteq>
     Some ''empty json body''"
  by (simp add: BindJSON_def contextOf_def postRequest_def NewContext_def Values_Get_def)

text \<open>
  Claim C9. For a key absent from the query, \<open>QueryInt\<close> returns \<open>(0, nil)\<close> and
  \<open>QueryBool\<close> returns \<open>(false, nil)\<close>, the results for an explicit \<open>0\<close> and \<open>false\<close>
  (which the library parses to 0 and false without error); an error comes back only when
  the key is present and the library's parser rejects its first value.
\<close>

theorem query_missing_key:
  "(URLQuery (Request c) key = [] \<longrightarrow>
      QueryInt atoi key c = (0, None) \<and> QueryBool parseBool key c = (False, None)) \<and>
   (URLQuery (Request c) key = [] \<and> URLQuery (Request c0) key = [''0''] \<and> atoi ''0'' = (0, None) \<longrightarrow>
      QueryInt atoi key c0 = QueryInt atoi key c) \<and>
   (URLQuery (Request c) key = [] \<and> URLQuery (Request c0) key = [''false''] \<and>
    parseBool ''false'' = (False, None) \<longrightarrow>
      QueryBool parseBool key c0 = QueryBool parseBool key c) \<and>
   (snd (QueryInt atoi key c) \<noteq> None \<longrightarrow>
      URLQuery (Request c) key \<noteq> [] \<and> snd (atoi (hd (URLQuery (Request c) key))) \<noteq> None) \<and>
   (snd (QueryBool parseBool key c) \<noteq> None \<longrightarrow>
      URLQuery (Request c) key \<noteq> [] \<and> snd (parseBool (hd (URLQuery (Request c) key))) \<noteq> None)"
  by (auto simp: QueryInt_def QueryBool_def Query_def Values_Get_def Let_def split: list.splits if_splits)

theorem query_missing_key_witness:
  "QueryInt atoiGo ''page'' (contextOf (getQuery ''/test'' [])) = (0, None) \<and>
   QueryBool parseBoolGo ''page'' (contextOf (getQuery ''/test'' [])) = (False, None) \<and>
   QueryInt atoiGo ''page'' (contextOf (getQuery ''/test'' [(''page'', [''0''])])) =
     QueryInt atoiGo ''page'' (contextOf (getQuery ''/test'' [])) \<and>
   QueryBool parseBoolGo ''page'' (contextOf (getQuery ''/test'' [(''page'', [''false''])])) =
     QueryBool parseBoolGo ''page'' (contextOf (getQuery ''/test'' [])) \<and>
   snd (QueryInt atoiGo ''page'' (contextOf (getQuery ''/test'' [(''page'', [''abc''])]))) \<noteq> None \<and>
   snd (atoiGo (hd (URLQuery (Request (contextOf (getQuery ''/test'' [(''page'', [''abc''])]))) ''page''))) \<noteq> None"
proof -
  let ?missing = "contextOf (getQuery ''/test'' [])"
  let ?zero = "contextOf (getQuery ''/test'' [(''page'', [''0''])])"
  let ?false = "contextOf (getQuery ''/test'' [(''page'', [''false''])])"
  let ?bad = "contextOf (getQuery ''/test'' [(''page'', [''abc''])])"
  have m: "URLQuery (Request ?missing) ''page'' = []"
    by (simp add: contextOf_def getQuery_def NewContext_def)
  have z: "URLQuery (Request ?zero) ''page'' = [''0'']" "atoiGo ''0'' = (0, None)"
    by (simp_all add: contextOf_def getQuery_def NewContext_def atoiGo_def HasPrefix_def)
  have f: "URLQuery (Request ?false) ''page'' = [''false'']" "parseBoolGo ''false'' = (False, None)"
    by (simp_all add: contextOf_def getQuery_def NewContext_def parseBoolGo_def)
  have e: "snd (QueryInt atoiGo ''page'' ?bad) \<noteq> None"
    by (simp add: QueryInt_def Query_def Values_Get_def contextOf_def getQuery_def NewContext_def
        atoiGo_def HasPrefix_def)
  from query_missing_key [of ?missing "''page''" atoiGo parseBoolGo ?zero] m z
  have 1: "QueryInt atoiGo ''page'' ?missing = (0, None)" "QueryBool parseBoolGo ''page'' ?missing = (False, None)"
    "QueryInt atoiGo ''page'' ?zero = QueryInt atoiGo ''page'' ?missing"
    by simp_all
  from query_missing_key [of ?missing "''page''" atoiGo parseBoolGo ?false] m f
  have 2: "QueryBool parseBoolGo ''page'' ?false = QueryBool parseBoolGo ''page'' ?missing"
    by simp
  from query_missing_key [of ?bad "''page''" atoiGo parseBoolGo] e
  have 3: "snd (atoiGo (hd (URLQuery (Request ?bad) ''page''))) \<noteq> None"
    by blast
  from 1 2 3 e show ?thesis by simp
qed

end
